theory Spec2Isabelle
  imports Main "HOL-Library.Sublist"
begin

section \<open>Values, exceptions and observable effects\<close>

text \<open>
  The handler \<open>lambda_handler\<close> of \<open>lambdas/LambdaGlueJobSuccess/index.py\<close> receives
  the event as a decoded JSON document.  Python decodes JSON into \<open>None\<close>, booleans,
  numbers, strings, lists and dictionaries; the handler treats every number alike, so
  one constructor with an integer stands for all of them.
\<close>

datatype json =
    JNull
  | JBool bool
  | JNum int
  | JStr string
  | JArr "json list"
  | JObj "(string \<times> json) list"

text \<open>The exceptions the handler's own expressions can raise.\<close>

datatype error =
    AttributeError
  | TypeError
  | KeyError string

text \<open>
  What an invocation does to the outside, in order: the calls to the Glue and Athena
  clients with their arguments, the calls to \<open>time.sleep\<close> with the number of seconds,
  and the log lines of level warning and error (the lines of level info carry no
  decision and are left out).
\<close>

datatype action =
    StartCrawler string
  | GetCrawler string
  | Sleep nat
  | GetTables string string
  | StartQueryExecution string string string
  | GetQueryExecution string
  | WarnNoCrawler json
  | WarnCrawlerNotReady
  | WarnNoTables string string
  | ErrorQueryNotSucceeded string string

text \<open>
  The surroundings of one invocation.  \<open>environ\<close> is \<open>os.environ\<close>;
  \<open>glue_database\<close> and \<open>athena_output_bucket\<close> are the two module constants read
  from it at import time.  The AWS services are not part of the repository: each is a
  parameter that answers as its interface promises.  \<open>get_crawler name i\<close> is the
  crawler state that the \<open>i\<close>-th call of \<open>glue.get_crawler\<close> reports,
  \<open>get_tables db expr\<close> is the \<open>TableList\<close> of the answer of \<open>glue.get_tables\<close>
  (the table names in the order returned, \<open>None\<close> when the key is missing),
  \<open>start_query_execution\<close> gives the \<open>QueryExecutionId\<close>, and
  \<open>get_query_execution qid i\<close> is the \<open>State\<close> with the optional
  \<open>StateChangeReason\<close> that the \<open>i\<close>-th call of \<open>athena.get_query_execution\<close>
  reports.
\<close>

record services =
  environ :: "string \<rightharpoonup> string"
  glue_database :: string
  athena_output_bucket :: string
  get_crawler :: "string \<Rightarrow> nat \<Rightarrow> string"
  get_tables :: "string \<Rightarrow> string \<Rightarrow> string list option"
  start_query_execution :: "string \<Rightarrow> string \<Rightarrow> string \<Rightarrow> string"
  get_query_execution :: "string \<Rightarrow> nat \<Rightarrow> string \<times> string option"

section \<open>The expressions of Python the handler uses\<close>

text \<open>\<open>d.get(key, default)\<close>: only a dictionary has the method.\<close>

fun dict_get :: "json \<Rightarrow> string \<Rightarrow> json \<Rightarrow> error + json" where
  "dict_get (JObj kvs) key dflt =
     Inr (case map_of kvs key of None \<Rightarrow> dflt | Some v \<Rightarrow> v)"
| "dict_get _ key dflt = Inl AttributeError"

text \<open>
  \<open>s in x\<close> for a string \<open>s\<close>: substring test on a string, membership in a list, key
  membership in a dictionary; any other value is not iterable.
\<close>

fun py_in :: "string \<Rightarrow> json \<Rightarrow> error + bool" where
  "py_in s (JStr t) = Inr (sublist s t)"
| "py_in s (JArr xs) = Inr (JStr s \<in> set xs)"
| "py_in s (JObj kvs) = Inr (s \<in> fst ` set kvs)"
| "py_in s _ = Inl TypeError"

text \<open>\<open>os.environ[key]\<close>.\<close>

definition os_environ :: "(string \<rightharpoonup> string) \<Rightarrow> string \<Rightarrow> error + string" where
  "os_environ env key = (case env key of None \<Rightarrow> Inl (KeyError key) | Some v \<Rightarrow> Inr v)"

section \<open>The handler\<close>

text \<open>Lines 18 and 19: the job name of the event, \<open>unknown\<close> by default.\<close>

definition job_name_of :: "json \<Rightarrow> error + json" where
  "job_name_of event =
     (case dict_get event ''detail'' (JObj []) of
        Inl e \<Rightarrow> Inl e
      | Inr detail \<Rightarrow> dict_get detail ''jobName'' (JStr ''unknown''))"

text \<open>
  Lines 23 to 34: the crawler and the table prefix for a job name; \<open>Inr None\<close> is the
  final \<open>else\<close>, where the handler gives up.
\<close>

definition classify :: "(string \<rightharpoonup> string) \<Rightarrow> json \<Rightarrow> error + (string \<times> string) option" where
  "classify env job_name =
     (case py_in ''txt'' job_name of
        Inl e \<Rightarrow> Inl e
      | Inr True \<Rightarrow>
          (case os_environ env ''TXT_CRAWLER'' of
             Inl e \<Rightarrow> Inl e
           | Inr crawler_name \<Rightarrow> Inr (Some (crawler_name, ''txt_'')))
      | Inr False \<Rightarrow>
     (case py_in ''csv'' job_name of
        Inl e \<Rightarrow> Inl e
      | Inr True \<Rightarrow>
          (case os_environ env ''CSV_CRAWLER'' of
             Inl e \<Rightarrow> Inl e
           | Inr crawler_name \<Rightarrow> Inr (Some (crawler_name, ''csv_'')))
      | Inr False \<Rightarrow>
     (case py_in ''json'' job_name of
        Inl e \<Rightarrow> Inl e
      | Inr True \<Rightarrow>
          (case os_environ env ''JSON_CRAWLER'' of
             Inl e \<Rightarrow> Inl e
           | Inr crawler_name \<Rightarrow> Inr (Some (crawler_name, ''json_'')))
      | Inr False \<Rightarrow> Inr None)))"

text \<open>
  Lines 40 to 56: the wait for the crawler.  \<open>sample i\<close> is the state the \<open>i\<close>-th
  call of \<open>glue.get_crawler\<close> reports, \<open>waited\<close> the seconds slept so far.  The result
  is what the loop did and the last value of \<open>status\<close>.
\<close>

definition max_wait_seconds :: nat where
  "max_wait_seconds = 90"

definition crawler_done :: "string \<Rightarrow> bool" where
  "crawler_done status \<longleftrightarrow> status = ''READY'' \<or> status = ''STOPPING''"

function crawler_wait :: "(nat \<Rightarrow> string) \<Rightarrow> string \<Rightarrow> nat \<Rightarrow> nat \<Rightarrow> action list \<times> string" where
  "crawler_wait sample crawler_name i waited =
     (let status = sample i in
      if crawler_done status then ([GetCrawler crawler_name], status)
      else if waited + 5 \<ge> max_wait_seconds
        then ([GetCrawler crawler_name, Sleep 5, WarnCrawlerNotReady], status)
        else (case crawler_wait sample crawler_name (Suc i) (waited + 5) of
                (acts, final) \<Rightarrow> (GetCrawler crawler_name # Sleep 5 # acts, final)))"
  by pat_completeness auto
termination
  by (relation "measure (\<lambda>(sample, crawler_name, i, waited). max_wait_seconds - waited)")
     (auto simp: max_wait_seconds_def)

text \<open>
  Lines 88 to 96: the wait for the query.  The loop has no bound of its own, so the
  model counts the polls it is allowed: \<open>fuel\<close> calls of
  \<open>athena.get_query_execution\<close>.  \<open>None\<close> says that the loop is still waiting after
  them; \<open>Some q\<close> is the status it left the loop with.
\<close>

definition query_done :: "string \<Rightarrow> bool" where
  "query_done state \<longleftrightarrow> state = ''SUCCEEDED'' \<or> state = ''FAILED'' \<or> state = ''CANCELLED''"

fun query_wait :: "(nat \<Rightarrow> string \<times> string option) \<Rightarrow> string \<Rightarrow> nat \<Rightarrow> nat
    \<Rightarrow> action list \<times> (string \<times> string option) option" where
  "query_wait sample qid 0 i = ([], None)"
| "query_wait sample qid (Suc fuel) i =
     (let q = sample i; state = fst q in
      if query_done state then ([GetQueryExecution qid], Some q)
      else (case query_wait sample qid fuel (Suc i) of
              (acts, final) \<Rightarrow> (GetQueryExecution qid # Sleep 5 # acts, final)))"

text \<open>
  The whole handler.  The result is the trace of the invocation and its outcome:
  \<open>Some (Inr b)\<close> when it returns \<open>b\<close>, \<open>Some (Inl e)\<close> when it raises \<open>e\<close>, and
  \<open>None\<close> when it is still waiting for the query after \<open>fuel\<close> polls.
\<close>

definition lambda_handler :: "services \<Rightarrow> nat \<Rightarrow> json \<Rightarrow> action list \<times> (error + bool) option" where
  "lambda_handler w fuel event =
     (case job_name_of event of
        Inl e \<Rightarrow> ([], Some (Inl e))
      | Inr job_name \<Rightarrow>
     (case classify (environ w) job_name of
        Inl e \<Rightarrow> ([], Some (Inl e))
      | Inr None \<Rightarrow> ([WarnNoCrawler job_name], Some (Inr False))
      | Inr (Some (crawler_name, table_prefix)) \<Rightarrow>
     (case crawler_wait (get_crawler w crawler_name) crawler_name 0 0 of
        (crawler_acts, status) \<Rightarrow>
     (let expression = table_prefix @ ''*'';
          acts1 = StartCrawler crawler_name # crawler_acts
                    @ [GetTables (glue_database w) expression];
          tables = (case get_tables w (glue_database w) expression of
                      None \<Rightarrow> [] | Some ts \<Rightarrow> ts)
      in case tables of
        [] \<Rightarrow> (acts1 @ [WarnNoTables table_prefix (glue_database w)], Some (Inr False))
      | table_name # _ \<Rightarrow>
     (let query = ''SELECT * FROM '' @ table_name;
          output_location = ''s3://'' @ athena_output_bucket w @ ''/results/'';
          qid = start_query_execution w query (glue_database w) output_location;
          acts2 = acts1 @ [StartQueryExecution query (glue_database w) output_location]
      in case query_wait (get_query_execution w qid) qid fuel 0 of
        (query_acts, None) \<Rightarrow> (acts2 @ query_acts, None)
      | (query_acts, Some (state, reason_opt)) \<Rightarrow>
          if state \<noteq> ''SUCCEEDED''
          then (acts2 @ query_acts
                  @ [ErrorQueryNotSucceeded state
                       (case reason_opt of None \<Rightarrow> ''Unknown'' | Some reason \<Rightarrow> reason)],
                Some (Inr False))
          else (acts2 @ query_acts, Some (Inr True)))))))"

section \<open>Reading traces\<close>

text \<open>The calls to a service outside the handler's process (Glue or Athena).\<close>

fun service_call :: "action \<Rightarrow> bool" where
  "service_call (StartCrawler _) = True"
| "service_call (GetCrawler _) = True"
| "service_call (GetTables _ _) = True"
| "service_call (StartQueryExecution _ _ _) = True"
| "service_call (GetQueryExecution _) = True"
| "service_call _ = False"

fun starts_crawler :: "action \<Rightarrow> bool" where
  "starts_crawler (StartCrawler _) = True"
| "starts_crawler _ = False"

fun starts_query :: "action \<Rightarrow> bool" where
  "starts_query (StartQueryExecution _ _ _) = True"
| "starts_query _ = False"

text \<open>The error line that reports a query that did not succeed, with its reason.\<close>

fun reports_query_error :: "action \<Rightarrow> bool" where
  "reports_query_error (ErrorQueryNotSucceeded _ _) = True"
| "reports_query_error _ = False"

text \<open>What belongs to the refresh task: its start, its polls and the warning of its wait.\<close>

fun refresh_action :: "action \<Rightarrow> bool" where
  "refresh_action (StartCrawler _) = True"
| "refresh_action (GetCrawler _) = True"
| "refresh_action WarnCrawlerNotReady = True"
| "refresh_action _ = False"

text \<open>
  Classification as the specification words it: the markers in their order of priority,
  each with the environment variable that names its crawler; the first marker that is a
  substring of the job name wins, and the prefix is the marker and an underscore.
\<close>

definition marker_table :: "(string \<times> string) list" where
  "marker_table =
     [(''txt'', ''TXT_CRAWLER''), (''csv'', ''CSV_CRAWLER''), (''json'', ''JSON_CRAWLER'')]"

definition classify_spec :: "(string \<rightharpoonup> string) \<Rightarrow> string \<Rightarrow> error + (string \<times> string) option" where
  "classify_spec env name =
     (case find (\<lambda>(marker, var). sublist marker name) marker_table of
        None \<Rightarrow> Inr None
      | Some (marker, var) \<Rightarrow>
          (case os_environ env var of
             Inl e \<Rightarrow> Inl e
           | Inr crawler_name \<Rightarrow> Inr (Some (crawler_name, marker @ ''_''))))"

text \<open>
  Surroundings for the examples: the three crawlers configured, the crawler ready at
  once, one table, and a query that succeeds at the first poll; and variations of it.
\<close>

definition example_environ :: "string \<rightharpoonup> string" where
  "example_environ =
     [''TXT_CRAWLER'' \<mapsto> ''txt-crawler'', ''CSV_CRAWLER'' \<mapsto> ''csv-crawler'',
      ''JSON_CRAWLER'' \<mapsto> ''json-crawler'']"

definition always_ready :: "string \<Rightarrow> nat \<Rightarrow> string" where
  "always_ready name i = ''READY''"

definition always_running :: "string \<Rightarrow> nat \<Rightarrow> string" where
  "always_running name i = ''RUNNING''"

definition one_table :: "string \<Rightarrow> string \<Rightarrow> string list option" where
  "one_table db expression = Some [''csv_raw'']"

definition no_table :: "string \<Rightarrow> string \<Rightarrow> string list option" where
  "no_table db expression = Some []"

definition run_id :: "string \<Rightarrow> string \<Rightarrow> string \<Rightarrow> string" where
  "run_id query db output_location = ''run-1''"

definition succeeds_at_once :: "string \<Rightarrow> nat \<Rightarrow> string \<times> string option" where
  "succeeds_at_once qid i = (''SUCCEEDED'', None)"

definition fails_at_third_poll :: "string \<Rightarrow> nat \<Rightarrow> string \<times> string option" where
  "fails_at_third_poll qid i =
     (if i < 2 then (''RUNNING'', None) else (''FAILED'', Some ''Syntax error''))"

definition never_finishes :: "string \<Rightarrow> nat \<Rightarrow> string \<times> string option" where
  "never_finishes qid i = (''RUNNING'', None)"

definition example_services :: services where
  "example_services =
     \<lparr> environ = example_environ, glue_database = ''db'', athena_output_bucket = ''bucket'',
       get_crawler = always_ready, get_tables = one_table,
       start_query_execution = run_id, get_query_execution = succeeds_at_once \<rparr>"

definition slow_crawler_services :: services where
  "slow_crawler_services = example_services \<lparr> get_crawler := always_running \<rparr>"

definition failing_query_services :: services where
  "failing_query_services = example_services \<lparr> get_query_execution := fails_at_third_poll \<rparr>"

definition stuck_query_services :: services where
  "stuck_query_services = example_services \<lparr> get_query_execution := never_finishes \<rparr>"

definition empty_catalog_services :: services where
  "empty_catalog_services = example_services \<lparr> get_tables := no_table \<rparr>"

definition csv_event :: json where
  "csv_event = JObj [(''detail'', JObj [(''jobName'', JStr ''ingest-csv-001'')])]"

text \<open>
  A field of a JSON value as a reader of the event sees it: a value that is not an object
  has no field.
\<close>

fun lookup_field :: "json \<Rightarrow> string \<Rightarrow> json option" where
  "lookup_field (JObj kvs) key = map_of kvs key"
| "lookup_field _ key = None"

definition cleanup_event :: json where
  "cleanup_event = JObj [(''detail'', JObj [(''jobName'', JStr ''cleanup-job'')])]"

section \<open>The two waits\<close>

declare crawler_wait.simps [simp del]

lemma crawler_wait_done:
  "crawler_done (sample i) \<Longrightarrow>
   crawler_wait sample c i waited = ([GetCrawler c], sample i)"
  by (subst crawler_wait.simps) simp

lemma crawler_wait_last_chance:
  "\<not> crawler_done (sample i) \<Longrightarrow> max_wait_seconds \<le> waited + 5 \<Longrightarrow>
   crawler_wait sample c i waited = ([GetCrawler c, Sleep 5, WarnCrawlerNotReady], sample i)"
  by (subst crawler_wait.simps) simp

lemma crawler_wait_again:
  "\<not> crawler_done (sample i) \<Longrightarrow> waited + 5 < max_wait_seconds \<Longrightarrow>
   crawler_wait sample c i waited =
     (GetCrawler c # Sleep 5 # fst (crawler_wait sample c (Suc i) (waited + 5)),
      snd (crawler_wait sample c (Suc i) (waited + 5)))"
  by (subst crawler_wait.simps) (simp split: prod.splits)

lemma crawler_wait_never_done:
  "(\<forall>j. i \<le> j \<and> j < i + Suc n \<longrightarrow> \<not> crawler_done (sample j)) \<Longrightarrow>
   waited + 5 * Suc n = max_wait_seconds \<Longrightarrow>
   crawler_wait sample c i waited =
     (concat (replicate (Suc n) [GetCrawler c, Sleep 5]) @ [WarnCrawlerNotReady], sample (i + n))"
proof (induction n arbitrary: i waited)
  case 0
  then show ?case by (simp add: crawler_wait_last_chance)
next
  case (Suc n)
  from Suc.prems have nd: "\<not> crawler_done (sample i)" by simp
  from Suc.prems have lt: "waited + 5 < max_wait_seconds" by simp
  have "crawler_wait sample c (Suc i) (waited + 5) =
     (concat (replicate (Suc n) [GetCrawler c, Sleep 5]) @ [WarnCrawlerNotReady], sample (Suc i + n))"
    using Suc.prems by (intro Suc.IH) auto
  then show ?case using crawler_wait_again [of sample i waited c] nd lt by simp
qed

lemma crawler_wait_18:
  assumes "\<forall>i<18. \<not> crawler_done (sample i)"
  shows "crawler_wait sample c 0 0 =
           (concat (replicate 18 [GetCrawler c, Sleep 5]) @ [WarnCrawlerNotReady], sample 17)"
proof -
  have "crawler_wait sample c 0 0 =
     (concat (replicate (Suc 17) [GetCrawler c, Sleep 5]) @ [WarnCrawlerNotReady], sample (0 + 17))"
    using assms by (intro crawler_wait_never_done) (auto simp: max_wait_seconds_def)
  then show ?thesis by simp
qed

lemma count_polls:
  "length (filter (\<lambda>a. a = GetCrawler c) (concat (replicate n [GetCrawler c, Sleep 5]))) = n"
  by (induction n) auto

text \<open>
  C3.  The wait for the crawler, bound 90 seconds and interval 5 seconds, as the handler
  starts it: when none of the states it samples is READY or STOPPING, it polls exactly
  18 times, which is 90 / 5 rounded up, sleeps 5 seconds after each poll, logs the
  warning of the timeout and returns with the last state it saw; it does not raise.
\<close>

theorem crawler_wait_times_out_after_18_samples:
  assumes "\<forall>i<18. \<not> crawler_done (sample i)"
  shows "crawler_wait sample c 0 0 =
           (concat (replicate 18 [GetCrawler c, Sleep 5]) @ [WarnCrawlerNotReady], sample 17)
       \<and> length (filter (\<lambda>a. a = GetCrawler c) (fst (crawler_wait sample c 0 0))) = 18
       \<and> (18::nat) = (max_wait_seconds + 5 - 1) div 5"
  using crawler_wait_18 [OF assms, of c] count_polls [of c 18]
  by (simp add: max_wait_seconds_def)

theorem crawler_wait_times_out_after_18_samples_witness:
  "\<not> (\<exists>i<18. crawler_done (always_running ''csv-crawler'' i))
   \<and> crawler_wait (always_running ''csv-crawler'') ''csv-crawler'' 0 0 =
           (concat (replicate 18 [GetCrawler ''csv-crawler'', Sleep 5]) @ [WarnCrawlerNotReady],
            ''RUNNING'')"
  using crawler_wait_times_out_after_18_samples [of "always_running ''csv-crawler''" "''csv-crawler''"]
  by (simp add: crawler_done_def always_running_def)

text \<open>
  C7.  When the first state the wait for the crawler samples is READY or STOPPING, the
  wait returns at once: its only action is that one poll, so it sleeps zero times and
  logs no timeout.
\<close>

theorem crawler_wait_returns_at_once:
  assumes "crawler_done (sample 0)"
  shows "crawler_wait sample c 0 0 = ([GetCrawler c], sample 0)
       \<and> filter (\<lambda>a. a = Sleep 5 \<or> a = WarnCrawlerNotReady) (fst (crawler_wait sample c 0 0)) = []"
  using crawler_wait_done [of sample 0 c 0] assms by simp

theorem crawler_wait_returns_at_once_witness:
  "crawler_done (always_ready ''csv-crawler'' 0)
   \<and> crawler_wait (always_ready ''csv-crawler'') ''csv-crawler'' 0 0
       = ([GetCrawler ''csv-crawler''], ''READY'')"
  using crawler_wait_returns_at_once [of "always_ready ''csv-crawler''" "''csv-crawler''"]
  by (simp add: crawler_done_def always_ready_def)

text \<open>What the two loops can do, and what the query loop does while it waits and when it ends.\<close>

lemma query_wait_acts:
  "a \<in> set (fst (query_wait sample qid fuel i)) \<Longrightarrow> a = GetQueryExecution qid \<or> a = Sleep 5"
proof (induction fuel arbitrary: i)
  case 0
  then show ?case by simp
next
  case (Suc fuel)
  show ?case
  proof (cases "query_done (fst (sample i))")
    case True
    with Suc.prems show ?thesis by (simp add: Let_def)
  next
    case False
    with Suc.prems
    have "a = GetQueryExecution qid \<or> a = Sleep 5
            \<or> a \<in> set (fst (query_wait sample qid fuel (Suc i)))"
      by (auto simp: Let_def split: prod.splits)
    with Suc.IH [of "Suc i"] show ?thesis by blast
  qed
qed

lemma crawler_wait_acts:
  "a \<in> set (fst (crawler_wait sample c i waited)) \<Longrightarrow>
   a = GetCrawler c \<or> a = Sleep 5 \<or> a = WarnCrawlerNotReady"
proof (induction sample c i waited arbitrary: a rule: crawler_wait.induct)
  case (1 sample c i waited)
  show ?case
  proof (cases "crawler_done (sample i)")
    case True
    with "1.prems" show ?thesis by (simp add: crawler_wait_done)
  next
    case nd: False
    show ?thesis
    proof (cases "max_wait_seconds \<le> waited + 5")
      case True
      with nd "1.prems" show ?thesis by (auto simp: crawler_wait_last_chance)
    next
      case False
      then have lt: "waited + 5 < max_wait_seconds" by simp
      from "1.prems" crawler_wait_again [of sample i waited c] nd lt
      have "a = GetCrawler c \<or> a = Sleep 5 \<or> a \<in> set (fst (crawler_wait sample c (Suc i) (waited + 5)))"
        by auto
      with "1.IH" [OF refl nd False] show ?thesis by auto
    qed
  qed
qed

lemma query_wait_waiting:
  "(\<forall>j. i \<le> j \<and> j < i + fuel \<longrightarrow> \<not> query_done (fst (sample j))) \<Longrightarrow>
   query_wait sample qid fuel i = (concat (replicate fuel [GetQueryExecution qid, Sleep 5]), None)"
proof (induction fuel arbitrary: i)
  case 0
  show ?case by simp
next
  case (Suc fuel)
  from Suc.prems have nd: "\<not> query_done (fst (sample i))" by simp
  have "query_wait sample qid fuel (Suc i) =
          (concat (replicate fuel [GetQueryExecution qid, Sleep 5]), None)"
    using Suc.prems by (intro Suc.IH) auto
  with nd show ?case by (simp add: Let_def)
qed

lemma query_wait_finishes:
  "(\<forall>j<k. \<not> query_done (fst (sample (i + j)))) \<Longrightarrow> query_done (fst (sample (i + k))) \<Longrightarrow>
   k < fuel \<Longrightarrow>
   query_wait sample qid fuel i =
     (concat (replicate k [GetQueryExecution qid, Sleep 5]) @ [GetQueryExecution qid],
      Some (sample (i + k)))"
proof (induction k arbitrary: i fuel)
  case 0
  then obtain f where "fuel = Suc f" by (cases fuel) auto
  with 0 show ?case by (simp add: Let_def)
next
  case (Suc k)
  then obtain f where f: "fuel = Suc f" by (cases fuel) auto
  from Suc.prems have nd: "\<not> query_done (fst (sample i))" by force
  have "query_wait sample qid f (Suc i) =
     (concat (replicate k [GetQueryExecution qid, Sleep 5]) @ [GetQueryExecution qid],
      Some (sample (Suc i + k)))"
  proof (rule Suc.IH)
    show "\<forall>j<k. \<not> query_done (fst (sample (Suc i + j)))"
      using Suc.prems(1) by (metis Suc_less_eq add_Suc_shift)
    show "query_done (fst (sample (Suc i + k)))" using Suc.prems(2) by simp
    show "k < f" using Suc.prems(3) f by simp
  qed
  with nd f show ?case by (simp add: Let_def)
qed

section \<open>The handler, branch by branch\<close>

lemma handler_raises_early:
  "job_name_of event = Inl e \<Longrightarrow> lambda_handler w fuel event = ([], Some (Inl e))"
  by (simp add: lambda_handler_def)

lemma handler_classify_raises:
  "job_name_of event = Inr j \<Longrightarrow> classify (environ w) j = Inl e \<Longrightarrow>
   lambda_handler w fuel event = ([], Some (Inl e))"
  by (simp add: lambda_handler_def)

lemma handler_unclassified:
  "job_name_of event = Inr j \<Longrightarrow> classify (environ w) j = Inr None \<Longrightarrow>
   lambda_handler w fuel event = ([WarnNoCrawler j], Some (Inr False))"
  by (simp add: lambda_handler_def)

lemma handler_no_tables:
  "job_name_of event = Inr j \<Longrightarrow> classify (environ w) j = Inr (Some (c, p)) \<Longrightarrow>
   get_tables w (glue_database w) (p @ ''*'') = None
     \<or> get_tables w (glue_database w) (p @ ''*'') = Some [] \<Longrightarrow>
   lambda_handler w fuel event =
     (StartCrawler c # fst (crawler_wait (get_crawler w c) c 0 0)
        @ [GetTables (glue_database w) (p @ ''*''), WarnNoTables p (glue_database w)],
      Some (Inr False))"
  by (auto simp: lambda_handler_def Let_def split: prod.splits)

lemma handler_query:
  assumes "job_name_of event = Inr j" and "classify (environ w) j = Inr (Some (c, p))"
    and "get_tables w (glue_database w) (p @ ''*'') = Some (t # ts)"
    and "query = ''SELECT * FROM '' @ t"
    and "output_location = ''s3://'' @ athena_output_bucket w @ ''/results/''"
    and "qid = start_query_execution w query (glue_database w) output_location"
    and "query_wait (get_query_execution w qid) qid fuel 0 = (acts, final)"
  shows "lambda_handler w fuel event =
     (StartCrawler c # fst (crawler_wait (get_crawler w c) c 0 0)
        @ [GetTables (glue_database w) (p @ ''*''),
           StartQueryExecution query (glue_database w) output_location]
        @ acts
        @ (case final of
             None \<Rightarrow> []
           | Some (state, reason_opt) \<Rightarrow>
               if state = ''SUCCEEDED'' then []
               else [ErrorQueryNotSucceeded state
                       (case reason_opt of None \<Rightarrow> ''Unknown'' | Some reason \<Rightarrow> reason)]),
      map_option (\<lambda>(state, reason_opt). Inr (state = ''SUCCEEDED'')) final)"
  using assms
  by (auto simp: lambda_handler_def Let_def split: prod.splits option.splits)

section \<open>Classification\<close>

lemmas eval_sublist = sublist_Cons_right prefix_Cons

lemma classify_string:
  "classify env (JStr name) =
     (if sublist ''txt'' name then
        (case env ''TXT_CRAWLER'' of None \<Rightarrow> Inl (KeyError ''TXT_CRAWLER'')
         | Some cn \<Rightarrow> Inr (Some (cn, ''txt_'')))
      else if sublist ''csv'' name then
        (case env ''CSV_CRAWLER'' of None \<Rightarrow> Inl (KeyError ''CSV_CRAWLER'')
         | Some cn \<Rightarrow> Inr (Some (cn, ''csv_'')))
      else if sublist ''json'' name then
        (case env ''JSON_CRAWLER'' of None \<Rightarrow> Inl (KeyError ''JSON_CRAWLER'')
         | Some cn \<Rightarrow> Inr (Some (cn, ''json_'')))
      else Inr None)"
  by (simp add: classify_def os_environ_def split: option.splits)

lemma handler_classified_prefix:
  assumes "job_name_of event = Inr j" and "classify (environ w) j = Inr (Some (c, p))"
  shows "prefix (StartCrawler c # fst (crawler_wait (get_crawler w c) c 0 0)
                   @ [GetTables (glue_database w) (p @ ''*'')])
                (fst (lambda_handler w fuel event))"
proof (cases "get_tables w (glue_database w) (p @ ''*'')")
  case None
  with handler_no_tables [OF assms, of fuel] show ?thesis by (simp add: prefix_def)
next
  case (Some ts)
  show ?thesis
  proof (cases ts)
    case Nil
    with Some handler_no_tables [OF assms, of fuel] show ?thesis by (simp add: prefix_def)
  next
    case (Cons t ts')
    obtain acts final where
      "query_wait (get_query_execution w
          (start_query_execution w (''SELECT * FROM '' @ t) (glue_database w)
             (''s3://'' @ athena_output_bucket w @ ''/results/'')))
          (start_query_execution w (''SELECT * FROM '' @ t) (glue_database w)
             (''s3://'' @ athena_output_bucket w @ ''/results/'')) fuel 0 = (acts, final)"
      by (cases "query_wait (get_query_execution w
          (start_query_execution w (''SELECT * FROM '' @ t) (glue_database w)
             (''s3://'' @ athena_output_bucket w @ ''/results/'')))
          (start_query_execution w (''SELECT * FROM '' @ t) (glue_database w)
             (''s3://'' @ athena_output_bucket w @ ''/results/'')) fuel 0") auto
    from handler_query [OF assms _ refl refl refl this] Some Cons
    show ?thesis by (simp add: prefix_def)
  qed
qed

text \<open>
  C2.  When the job name of the event is a string that contains none of \<open>txt\<close>,
  \<open>csv\<close>, \<open>json\<close>, the handler returns \<open>False\<close> and all it has done is log the
  warning that no crawler was found for that name: no crawler start, no catalog lookup,
  no query, no sleep.
\<close>

theorem unclassified_job_name_fails_without_service_calls:
  assumes "job_name_of event = Inr (JStr name)"
    and "\<not> sublist ''txt'' name" and "\<not> sublist ''csv'' name" and "\<not> sublist ''json'' name"
  shows "lambda_handler w fuel event = ([WarnNoCrawler (JStr name)], Some (Inr False))
       \<and> filter service_call (fst (lambda_handler w fuel event)) = []"
proof -
  from assms(2-4) have "classify (environ w) (JStr name) = Inr None"
    by (simp add: classify_string)
  from handler_unclassified [OF assms(1) this] show ?thesis by simp
qed

theorem unclassified_job_name_fails_without_service_calls_witness:
  "job_name_of cleanup_event = Inr (JStr ''cleanup-job'')
   \<and> \<not> sublist ''txt'' ''cleanup-job'' \<and> \<not> sublist ''csv'' ''cleanup-job''
   \<and> \<not> sublist ''json'' ''cleanup-job''
   \<and> lambda_handler example_services 0 cleanup_event
        = ([WarnNoCrawler (JStr ''cleanup-job'')], Some (Inr False))"
  using unclassified_job_name_fails_without_service_calls
          [of cleanup_event "''cleanup-job''" example_services 0]
  by (simp add: job_name_of_def cleanup_event_def eval_sublist)

text \<open>
  C4.  On every string the classification of the handler is the one the specification
  words: the first of \<open>txt\<close>, \<open>csv\<close>, \<open>json\<close> that is a substring of the job name
  decides, and the prefix is that marker and an underscore.  In particular a job name
  that contains \<open>csv\<close> and not \<open>txt\<close> selects the crawler configured as
  \<open>CSV_CRAWLER\<close> and the prefix \<open>csv_\<close>, whatever else the name contains: the
  handler starts that crawler first and lists the tables matching \<open>csv_*\<close>.  The match
  is case-sensitive: a name with the markers in other letter case matches none.
\<close>

theorem classification_first_match_wins:
  assumes "sublist ''csv'' name" and "\<not> sublist ''txt'' name"
    and "environ w ''CSV_CRAWLER'' = Some c"
    and "job_name_of event = Inr (JStr name)"
  shows "classify (environ w) (JStr name) = Inr (Some (c, ''csv_''))
       \<and> prefix [StartCrawler c] (fst (lambda_handler w fuel event))
       \<and> GetTables (glue_database w) ''csv_*'' \<in> set (fst (lambda_handler w fuel event))
       \<and> (\<forall>env n. classify env (JStr n) = classify_spec env n)
       \<and> classify (environ w) (JStr ''TXT-Csv-JSON'') = Inr None"
proof -
  have cl: "classify (environ w) (JStr name) = Inr (Some (c, ''csv_''))"
    using assms(1-3) by (simp add: classify_string)
  have spec: "classify env (JStr n) = classify_spec env n" for env n
    by (simp add: classify_string classify_spec_def marker_table_def os_environ_def
             split: option.splits)
  have cs: "classify (environ w) (JStr ''TXT-Csv-JSON'') = Inr None"
    by (simp add: classify_string eval_sublist)
  from handler_classified_prefix [OF assms(4) cl, of fuel]
  obtain rest where tr: "fst (lambda_handler w fuel event) =
     (StartCrawler c # fst (crawler_wait (get_crawler w c) c 0 0)
        @ [GetTables (glue_database w) (''csv_'' @ ''*'')]) @ rest"
    by (auto simp: prefix_def)
  have "prefix [StartCrawler c] (fst (lambda_handler w fuel event))"
    unfolding tr by (simp add: prefix_def)
  moreover have "GetTables (glue_database w) ''csv_*'' \<in> set (fst (lambda_handler w fuel event))"
    unfolding tr by simp
  ultimately show ?thesis using cl spec cs by blast
qed

theorem classification_first_match_wins_witness:
  "sublist ''csv'' ''ingest-csv-001'' \<and> \<not> sublist ''txt'' ''ingest-csv-001''
   \<and> environ example_services ''CSV_CRAWLER'' = Some ''csv-crawler''
   \<and> job_name_of csv_event = Inr (JStr ''ingest-csv-001'')
   \<and> classify (environ example_services) (JStr ''ingest-csv-001'')
        = Inr (Some (''csv-crawler'', ''csv_''))
   \<and> prefix [StartCrawler ''csv-crawler''] (fst (lambda_handler example_services 1 csv_event))"
  using classification_first_match_wins
          [of "''ingest-csv-001''" example_services "''csv-crawler''" csv_event 1]
  by (simp add: job_name_of_def csv_event_def example_services_def example_environ_def
        eval_sublist classify_spec_def marker_table_def os_environ_def)

text \<open>
  C10, as amended.  When the event is an object in which \<open>detail\<close> is absent, or in
  which \<open>detail\<close> is an object without \<open>jobName\<close>, the handler does not raise: the
  job name is \<open>unknown\<close>, which matches no marker, so the handler returns \<open>False\<close>
  after the warning alone, with no call to a service.
\<close>

theorem missing_fields_default_to_unknown:
  assumes "event = JObj kvs"
    and "map_of kvs ''detail'' = None
         \<or> (\<exists>d. map_of kvs ''detail'' = Some (JObj d) \<and> map_of d ''jobName'' = None)"
  shows "job_name_of event = Inr (JStr ''unknown'')
       \<and> lambda_handler w fuel event = ([WarnNoCrawler (JStr ''unknown'')], Some (Inr False))
       \<and> filter service_call (fst (lambda_handler w fuel event)) = []"
proof -
  from assms have jn: "job_name_of event = Inr (JStr ''unknown'')"
    by (auto simp: job_name_of_def)
  have "classify (environ w) (JStr ''unknown'') = Inr None"
    by (simp add: classify_string eval_sublist)
  from handler_unclassified [OF jn this] jn show ?thesis by simp
qed

theorem missing_fields_default_to_unknown_witness:
  "map_of [(''source'', JStr ''aws.glue'')] ''detail'' = None
   \<and> lambda_handler example_services 0 (JObj [(''source'', JStr ''aws.glue'')])
       = ([WarnNoCrawler (JStr ''unknown'')], Some (Inr False))
   \<and> map_of [(''detail'', JObj [(''state'', JStr ''SUCCEEDED'')])] ''detail''
       = Some (JObj [(''state'', JStr ''SUCCEEDED'')])
   \<and> map_of [(''state'', JStr ''SUCCEEDED'')] ''jobName'' = None
   \<and> lambda_handler example_services 0 (JObj [(''detail'', JObj [(''state'', JStr ''SUCCEEDED'')])])
       = ([WarnNoCrawler (JStr ''unknown'')], Some (Inr False))"
  using missing_fields_default_to_unknown
          [of "JObj [(''source'', JStr ''aws.glue'')]" "[(''source'', JStr ''aws.glue'')]"
              example_services 0]
        missing_fields_default_to_unknown
          [of "JObj [(''detail'', JObj [(''state'', JStr ''SUCCEEDED'')])]"
              "[(''detail'', JObj [(''state'', JStr ''SUCCEEDED'')])]" example_services 0]
  by simp

text \<open>
  C10 as stated fails where \<open>detail\<close> is present and not an object: in the event
  \<open>{"detail": null}\<close> the field \<open>jobName\<close> is absent, and the handler raises
  \<open>AttributeError\<close> at line 19, since \<open>None\<close> has no method \<open>get\<close>.
\<close>

theorem null_detail_raises_counterexample:
  "lookup_field (JObj [(''detail'', JNull)]) ''detail'' = Some JNull
   \<and> lookup_field JNull ''jobName'' = None
   \<and> lambda_handler example_services 0 (JObj [(''detail'', JNull)])
       = ([], Some (Inl AttributeError))"
  by (simp add: lambda_handler_def job_name_of_def)

section \<open>From the catalog lookup to the result\<close>

lemma crawler_wait_filters:
  "filter starts_crawler (fst (crawler_wait sample c i waited)) = []"
  "filter starts_query (fst (crawler_wait sample c i waited)) = []"
  "filter reports_query_error (fst (crawler_wait sample c i waited)) = []"
  by (auto simp: filter_empty_conv dest!: crawler_wait_acts)

lemma query_wait_filters:
  "filter starts_crawler (fst (query_wait sample qid fuel i)) = []"
  "filter starts_query (fst (query_wait sample qid fuel i)) = []"
  "filter refresh_action (fst (query_wait sample qid fuel i)) = []"
  "filter reports_query_error (fst (query_wait sample qid fuel i)) = []"
  by (auto simp: filter_empty_conv dest!: query_wait_acts)

lemma handler_query':
  assumes "job_name_of event = Inr j" and "classify (environ w) j = Inr (Some (c, p))"
    and "get_tables w (glue_database w) (p @ ''*'') = Some (t # ts)"
    and "query = ''SELECT * FROM '' @ t"
    and "output_location = ''s3://'' @ athena_output_bucket w @ ''/results/''"
    and "qid = start_query_execution w query (glue_database w) output_location"
  shows "lambda_handler w fuel event =
     (StartCrawler c # fst (crawler_wait (get_crawler w c) c 0 0)
        @ [GetTables (glue_database w) (p @ ''*''),
           StartQueryExecution query (glue_database w) output_location]
        @ fst (query_wait (get_query_execution w qid) qid fuel 0)
        @ (case snd (query_wait (get_query_execution w qid) qid fuel 0) of
             None \<Rightarrow> []
           | Some (state, reason_opt) \<Rightarrow>
               if state = ''SUCCEEDED'' then []
               else [ErrorQueryNotSucceeded state
                       (case reason_opt of None \<Rightarrow> ''Unknown'' | Some reason \<Rightarrow> reason)]),
      map_option (\<lambda>(state, reason_opt). Inr (state = ''SUCCEEDED''))
        (snd (query_wait (get_query_execution w qid) qid fuel 0)))"
  using handler_query [OF assms, of fuel "fst (query_wait (get_query_execution w qid) qid fuel 0)"
      "snd (query_wait (get_query_execution w qid) qid fuel 0)"]
  by simp

text \<open>
  C1.  Take an invocation that reaches the query stage (the job name is classified and
  the catalog lookup gives a table) and whose query run reports its first terminal state
  at poll \<open>k\<close>.  Observed for more than \<open>k\<close> polls, the handler returns, and it
  returns \<open>True\<close> exactly when that state is SUCCEEDED.  For SUCCEEDED no reason is
  read and no error is logged.  For the other terminal states, FAILED and CANCELLED, the
  handler returns \<open>False\<close> after one error line, its last action, which carries the
  state and the \<open>StateChangeReason\<close> of that same status (\<open>Unknown\<close> when the status
  has none).
\<close>

theorem query_outcome_decides_result:
  assumes "job_name_of event = Inr j" and "classify (environ w) j = Inr (Some (c, p))"
    and "get_tables w (glue_database w) (p @ ''*'') = Some (t # ts)"
    and "qid = start_query_execution w (''SELECT * FROM '' @ t) (glue_database w)
                 (''s3://'' @ athena_output_bucket w @ ''/results/'')"
    and "\<forall>i<k. \<not> query_done (fst (get_query_execution w qid i))"
    and "get_query_execution w qid k = (state, reason_opt)"
    and "query_done state"
    and "k < fuel"
  shows "snd (lambda_handler w fuel event) = Some (Inr (state = ''SUCCEEDED''))
       \<and> (state = ''SUCCEEDED'' \<longrightarrow>
            filter reports_query_error (fst (lambda_handler w fuel event)) = [])
       \<and> (state \<noteq> ''SUCCEEDED'' \<longrightarrow>
            (state = ''FAILED'' \<or> state = ''CANCELLED'')
            \<and> filter reports_query_error (fst (lambda_handler w fuel event)) =
                [ErrorQueryNotSucceeded state
                   (case reason_opt of None \<Rightarrow> ''Unknown'' | Some reason \<Rightarrow> reason)]
            \<and> last (fst (lambda_handler w fuel event)) =
                ErrorQueryNotSucceeded state
                   (case reason_opt of None \<Rightarrow> ''Unknown'' | Some reason \<Rightarrow> reason))"
proof -
  have qw: "query_wait (get_query_execution w qid) qid fuel 0 =
      (concat (replicate k [GetQueryExecution qid, Sleep 5]) @ [GetQueryExecution qid],
       Some (state, reason_opt))"
    using query_wait_finishes [of k "get_query_execution w qid" 0 fuel qid] assms(5-8)
    by simp
  have nf: "filter reports_query_error (concat (replicate k [GetQueryExecution qid, Sleep 5])) = []"
    by (induction k) auto
  note h = handler_query' [OF assms(1-3) refl refl assms(4), of fuel]
  have res: "snd (lambda_handler w fuel event) = Some (Inr (state = ''SUCCEEDED''))"
    by (simp add: h qw)
  have ok: "filter reports_query_error (fst (lambda_handler w fuel event)) = []"
    if "state = ''SUCCEEDED''"
    using that by (simp add: h qw crawler_wait_filters nf)
  have bad: "filter reports_query_error (fst (lambda_handler w fuel event)) =
                [ErrorQueryNotSucceeded state
                   (case reason_opt of None \<Rightarrow> ''Unknown'' | Some reason \<Rightarrow> reason)]"
       "last (fst (lambda_handler w fuel event)) =
                ErrorQueryNotSucceeded state
                   (case reason_opt of None \<Rightarrow> ''Unknown'' | Some reason \<Rightarrow> reason)"
    if "state \<noteq> ''SUCCEEDED''"
    using that by (simp_all add: h qw crawler_wait_filters nf)
  from assms(7) have "state \<noteq> ''SUCCEEDED'' \<Longrightarrow> state = ''FAILED'' \<or> state = ''CANCELLED''"
    by (auto simp: query_done_def)
  with res ok bad show ?thesis by blast
qed

theorem query_outcome_decides_result_witness:
  "job_name_of csv_event = Inr (JStr ''ingest-csv-001'')
   \<and> classify (environ failing_query_services) (JStr ''ingest-csv-001'')
        = Inr (Some (''csv-crawler'', ''csv_''))
   \<and> get_tables failing_query_services ''db'' ''csv_*'' = Some [''csv_raw'']
   \<and> \<not> (\<exists>i<2. query_done (fst (get_query_execution failing_query_services ''run-1'' i)))
   \<and> get_query_execution failing_query_services ''run-1'' 2 = (''FAILED'', Some ''Syntax error'')
   \<and> query_done ''FAILED''
   \<and> snd (lambda_handler failing_query_services 3 csv_event) = Some (Inr False)
   \<and> last (fst (lambda_handler failing_query_services 3 csv_event))
        = ErrorQueryNotSucceeded ''FAILED'' ''Syntax error''"
  using query_outcome_decides_result
          [of csv_event "JStr ''ingest-csv-001''" failing_query_services "''csv-crawler''" "''csv_''"
              "''csv_raw''" "[]" "''run-1''" 2 "''FAILED''" "Some ''Syntax error''" 3]
  by (simp add: job_name_of_def csv_event_def failing_query_services_def example_services_def
        example_environ_def classify_string eval_sublist one_table_def run_id_def
        fails_at_third_poll_def query_done_def)

text \<open>
  C5.  In an invocation that reaches the catalog lookup: when the lookup for the
  resolved prefix gives no table (an empty \<open>TableList\<close>, or none at all), the handler
  returns \<open>False\<close> after the warning that names the prefix, and it never submits a
  query; when the lookup gives tables, the one query the handler submits selects from the
  first of them in the order returned.
\<close>

theorem empty_catalog_lookup_fails_before_query:
  assumes "job_name_of event = Inr j" and "classify (environ w) j = Inr (Some (c, p))"
  shows "(get_tables w (glue_database w) (p @ ''*'') = None
            \<or> get_tables w (glue_database w) (p @ ''*'') = Some [] \<longrightarrow>
            snd (lambda_handler w fuel event) = Some (Inr False)
            \<and> last (fst (lambda_handler w fuel event)) = WarnNoTables p (glue_database w)
            \<and> filter starts_query (fst (lambda_handler w fuel event)) = [])
       \<and> (get_tables w (glue_database w) (p @ ''*'') = Some (t # ts) \<longrightarrow>
            filter starts_query (fst (lambda_handler w fuel event)) =
              [StartQueryExecution (''SELECT * FROM '' @ t) (glue_database w)
                 (''s3://'' @ athena_output_bucket w @ ''/results/'')])"
proof -
  have empty: "snd (lambda_handler w fuel event) = Some (Inr False)
            \<and> last (fst (lambda_handler w fuel event)) = WarnNoTables p (glue_database w)
            \<and> filter starts_query (fst (lambda_handler w fuel event)) = []"
    if "get_tables w (glue_database w) (p @ ''*'') = None
          \<or> get_tables w (glue_database w) (p @ ''*'') = Some []"
    using handler_no_tables [OF assms that, of fuel]
    by (simp add: crawler_wait_filters)
  have first: "filter starts_query (fst (lambda_handler w fuel event)) =
              [StartQueryExecution (''SELECT * FROM '' @ t) (glue_database w)
                 (''s3://'' @ athena_output_bucket w @ ''/results/'')]"
    if "get_tables w (glue_database w) (p @ ''*'') = Some (t # ts)"
    using handler_query' [OF assms that refl refl refl, of fuel]
    by (simp add: crawler_wait_filters query_wait_filters split: option.splits)
  from empty first show ?thesis by blast
qed

theorem empty_catalog_lookup_fails_before_query_witness:
  "job_name_of csv_event = Inr (JStr ''ingest-csv-001'')
   \<and> classify (environ empty_catalog_services) (JStr ''ingest-csv-001'')
        = Inr (Some (''csv-crawler'', ''csv_''))
   \<and> get_tables empty_catalog_services ''db'' ''csv_*'' = Some []
   \<and> snd (lambda_handler empty_catalog_services 1 csv_event) = Some (Inr False)
   \<and> last (fst (lambda_handler empty_catalog_services 1 csv_event)) = WarnNoTables ''csv_'' ''db''
   \<and> filter starts_query (fst (lambda_handler empty_catalog_services 1 csv_event)) = []"
  using empty_catalog_lookup_fails_before_query
          [of csv_event "JStr ''ingest-csv-001''" empty_catalog_services "''csv-crawler''" "''csv_''"
              1 "''x''" "[]"]
  by (simp add: job_name_of_def csv_event_def empty_catalog_services_def example_services_def
        example_environ_def classify_string eval_sublist no_table_def)

text \<open>
  C6.  When the crawler reaches neither READY nor STOPPING in the 18 polls of the
  90 seconds, the invocation does not stop there: after the warning the handler goes on
  to the catalog lookup for the prefix, the last state it saw being that of poll 18, not
  terminal; and the outcome of the invocation is the one it would have had with a crawler
  that was READY at the first poll, so the timeout by itself never makes it fail.
\<close>

theorem crawler_timeout_is_soft:
  assumes "job_name_of event = Inr j" and "classify (environ w) j = Inr (Some (c, p))"
    and "\<forall>i<18. \<not> crawler_done (get_crawler w c i)"
  shows "prefix (StartCrawler c # concat (replicate 18 [GetCrawler c, Sleep 5])
                   @ [WarnCrawlerNotReady, GetTables (glue_database w) (p @ ''*'')])
                (fst (lambda_handler w fuel event))
       \<and> snd (crawler_wait (get_crawler w c) c 0 0) = get_crawler w c 17
       \<and> \<not> crawler_done (get_crawler w c 17)
       \<and> snd (lambda_handler w fuel event)
           = snd (lambda_handler (w\<lparr>get_crawler := always_ready\<rparr>) fuel event)"
proof -
  have cw: "crawler_wait (get_crawler w c) c 0 0 =
      (concat (replicate 18 [GetCrawler c, Sleep 5]) @ [WarnCrawlerNotReady], get_crawler w c 17)"
    using assms(3) by (rule crawler_wait_18)
  have pre: "prefix (StartCrawler c # concat (replicate 18 [GetCrawler c, Sleep 5])
                   @ [WarnCrawlerNotReady, GetTables (glue_database w) (p @ ''*'')])
                (fst (lambda_handler w fuel event))"
    using handler_classified_prefix [OF assms(1,2), of fuel] by (simp add: cw)
  let ?w = "w\<lparr>get_crawler := always_ready\<rparr>"
  have cl': "classify (environ ?w) j = Inr (Some (c, p))" using assms(2) by simp
  have same: "snd (lambda_handler w fuel event) = snd (lambda_handler ?w fuel event)"
  proof (cases "get_tables w (glue_database w) (p @ ''*'')")
    case None
    then show ?thesis
      using handler_no_tables [OF assms(1,2), of fuel] handler_no_tables [OF assms(1) cl', of fuel]
      by simp
  next
    case (Some tables)
    show ?thesis
    proof (cases tables)
      case Nil
      with Some show ?thesis
        using handler_no_tables [OF assms(1,2), of fuel]
          handler_no_tables [OF assms(1) cl', of fuel]
        by simp
    next
      case (Cons t ts)
      with Some have a: "get_tables w (glue_database w) (p @ ''*'') = Some (t # ts)" by simp
      then have b: "get_tables ?w (glue_database ?w) (p @ ''*'') = Some (t # ts)" by simp
      show ?thesis
        using handler_query' [OF assms(1,2) a refl refl refl, of fuel]
          handler_query' [OF assms(1) cl' b refl refl refl, of fuel]
        by simp
    qed
  qed
  from assms(3) have "\<not> crawler_done (get_crawler w c 17)" by simp
  with pre cw same show ?thesis by simp
qed

theorem crawler_timeout_is_soft_witness:
  "job_name_of csv_event = Inr (JStr ''ingest-csv-001'')
   \<and> classify (environ slow_crawler_services) (JStr ''ingest-csv-001'')
        = Inr (Some (''csv-crawler'', ''csv_''))
   \<and> \<not> (\<exists>i<18. crawler_done (get_crawler slow_crawler_services ''csv-crawler'' i))
   \<and> prefix (StartCrawler ''csv-crawler''
               # concat (replicate 18 [GetCrawler ''csv-crawler'', Sleep 5])
               @ [WarnCrawlerNotReady, GetTables ''db'' ''csv_*''])
        (fst (lambda_handler slow_crawler_services 1 csv_event))
   \<and> snd (lambda_handler slow_crawler_services 1 csv_event) = Some (Inr True)"
proof -
  have ready: "snd (lambda_handler example_services 1 csv_event) = Some (Inr True)"
    by (simp add: lambda_handler_def job_name_of_def csv_event_def example_services_def
          example_environ_def classify_string eval_sublist always_ready_def crawler_done_def
          crawler_wait_done one_table_def run_id_def succeeds_at_once_def query_done_def)
  have upd: "slow_crawler_services\<lparr>get_crawler := always_ready\<rparr> = example_services"
    by (simp add: slow_crawler_services_def example_services_def)
  show ?thesis
    using crawler_timeout_is_soft
            [of csv_event "JStr ''ingest-csv-001''" slow_crawler_services "''csv-crawler''"
                "''csv_''" 1]
      ready
    by (simp add: upd)
       (simp add: job_name_of_def csv_event_def slow_crawler_services_def example_services_def
          example_environ_def classify_string eval_sublist always_running_def crawler_done_def)
qed

text \<open>
  C8.  The wait for the query has no bound: in an invocation that has submitted its
  query, as long as every state polled so far is none of SUCCEEDED, FAILED, CANCELLED,
  the handler has not returned, whatever the number of polls; all it has done since the
  submission is to poll and then sleep 5 seconds, once per poll.
\<close>

theorem query_wait_has_no_timeout:
  assumes "job_name_of event = Inr j" and "classify (environ w) j = Inr (Some (c, p))"
    and "get_tables w (glue_database w) (p @ ''*'') = Some (t # ts)"
    and "qid = start_query_execution w (''SELECT * FROM '' @ t) (glue_database w)
                 (''s3://'' @ athena_output_bucket w @ ''/results/'')"
    and "\<forall>i<fuel. \<not> query_done (fst (get_query_execution w qid i))"
  shows "snd (lambda_handler w fuel event) = None
       \<and> fst (lambda_handler w fuel event) =
           StartCrawler c # fst (crawler_wait (get_crawler w c) c 0 0)
             @ [GetTables (glue_database w) (p @ ''*''),
                StartQueryExecution (''SELECT * FROM '' @ t) (glue_database w)
                  (''s3://'' @ athena_output_bucket w @ ''/results/'')]
             @ concat (replicate fuel [GetQueryExecution qid, Sleep 5])"
proof -
  have "query_wait (get_query_execution w qid) qid fuel 0 =
          (concat (replicate fuel [GetQueryExecution qid, Sleep 5]), None)"
    using assms(5) by (intro query_wait_waiting) simp
  then show ?thesis
    using handler_query' [OF assms(1-3) refl refl assms(4), of fuel] by simp
qed

theorem query_wait_has_no_timeout_witness:
  "job_name_of csv_event = Inr (JStr ''ingest-csv-001'')
   \<and> classify (environ stuck_query_services) (JStr ''ingest-csv-001'')
        = Inr (Some (''csv-crawler'', ''csv_''))
   \<and> get_tables stuck_query_services ''db'' ''csv_*'' = Some [''csv_raw'']
   \<and> \<not> (\<exists>i<1000. query_done (fst (get_query_execution stuck_query_services ''run-1'' i)))
   \<and> snd (lambda_handler stuck_query_services 1000 csv_event) = None"
  using query_wait_has_no_timeout
          [of csv_event "JStr ''ingest-csv-001''" stuck_query_services "''csv-crawler''" "''csv_''"
              "''csv_raw''" "[]" "''run-1''" 1000]
  by (simp add: job_name_of_def csv_event_def stuck_query_services_def example_services_def
        example_environ_def classify_string eval_sublist one_table_def run_id_def
        never_finishes_def query_done_def)

text \<open>
  C9.  In every invocation, whatever the event and the surroundings and however long
  it is observed, the handler starts at most one crawler and submits at most one query,
  and from the submission of the query on nothing concerns the crawler any more.  Either
  no query is submitted at all, or the invocation begins with the start of the crawler
  and the whole wait for it, followed by the catalog lookup, and only then the rest.
\<close>

theorem invocation_is_sequential:
  "length (filter starts_crawler (fst (lambda_handler w fuel event))) \<le> 1
   \<and> length (filter starts_query (fst (lambda_handler w fuel event))) \<le> 1
   \<and> filter refresh_action
       (dropWhile (\<lambda>a. \<not> starts_query a) (fst (lambda_handler w fuel event))) = []
   \<and> (filter starts_query (fst (lambda_handler w fuel event)) = []
        \<or> (\<exists>c p rest. fst (lambda_handler w fuel event) =
              StartCrawler c # fst (crawler_wait (get_crawler w c) c 0 0)
                @ GetTables (glue_database w) (p @ ''*'') # rest
              \<and> filter refresh_action rest = []))"
proof (cases "job_name_of event")
  case (Inl e)
  then show ?thesis by (simp add: handler_raises_early)
next
  case jn: (Inr j)
  show ?thesis
  proof (cases "classify (environ w) j")
    case (Inl e)
    with jn show ?thesis by (simp add: handler_classify_raises)
  next
    case (Inr r)
    show ?thesis
    proof (cases r)
      case None
      with jn Inr show ?thesis by (simp add: handler_unclassified)
    next
      case (Some cp)
      obtain c p where cp: "cp = (c, p)" by (cases cp) auto
      with Some Inr have cl: "classify (environ w) j = Inr (Some (c, p))" by simp
      let ?cw = "fst (crawler_wait (get_crawler w c) c 0 0)"
      have nq: "\<And>x. x \<in> set ?cw \<Longrightarrow> \<not> starts_query x"
        by (auto dest!: crawler_wait_acts)
      have dw: "dropWhile (\<lambda>a. \<not> starts_query a) (?cw @ ys) = dropWhile (\<lambda>a. \<not> starts_query a) ys" for ys
        by (rule dropWhile_append2) (use nq in auto)
      have dw0: "dropWhile (\<lambda>a. \<not> starts_query a) ?cw = []"
        using nq by simp
      consider "get_tables w (glue_database w) (p @ ''*'') = None
                  \<or> get_tables w (glue_database w) (p @ ''*'') = Some []"
        | t ts where "get_tables w (glue_database w) (p @ ''*'') = Some (t # ts)"
        by (cases "get_tables w (glue_database w) (p @ ''*'')"; cases "the (get_tables w (glue_database w) (p @ ''*''))") auto
      then show ?thesis
      proof cases
        case 1
        show ?thesis
          using handler_no_tables [OF jn cl 1, of fuel]
          by (simp add: crawler_wait_filters dw)
      next
        case 2
        show ?thesis
          using handler_query' [OF jn cl 2 refl refl refl, of fuel]
          by (simp add: crawler_wait_filters query_wait_filters dw split: option.splits)
      qed
    qed
  qed
qed

end
